theory Spec2Isabelle
  imports Complex_Main
begin

section \<open>Binary64 arithmetic\<close>

text \<open>
  The program computes on pandas columns of type float64. A float64 value is modelled by
  its sign and its magnitude, so that the two zeros, the two infinities and not-a-number
  are values of their own. The magnitude of a finite value is a real number; the results
  of the operations are the real results rounded to the nearest float64 value, ties to
  the value with an even significand, as IEEE 754 prescribes and numpy computes. The
  type does not require a magnitude to be a float64 value itself: what is proved for
  every magnitude holds for the float64 ones.

  \<open>ilog2 x\<close> is the binary exponent of a positive real: \<open>2 ^ ilog2 x \<le> x < 2 ^ (ilog2 x + 1)\<close>.
\<close>

function ilog2 :: "real \<Rightarrow> int" where
  "ilog2 x =
     (if 2 \<le> x then ilog2 (x / 2) + 1
      else if 0 < x \<and> x < 1 then ilog2 (x * 2) - 1
      else 0)"
  by pat_completeness auto
termination
proof (relation "measure (\<lambda>x. nat \<bar>\<lfloor>log 2 x\<rfloor>\<bar>)")
  show "wf (measure (\<lambda>x. nat \<bar>\<lfloor>log 2 x\<rfloor>\<bar>))" by simp
next
  fix x :: real
  assume x: "2 \<le> x"
  then have "log 2 (x / 2) = log 2 x - 1" by (simp add: log_divide)
  moreover have "1 \<le> log 2 x" using x by (simp add: le_log_iff)
  then have "1 \<le> \<lfloor>log 2 x\<rfloor>" by linarith
  ultimately show "(x / 2, x) \<in> measure (\<lambda>x. nat \<bar>\<lfloor>log 2 x\<rfloor>\<bar>)"
    by simp
next
  fix x :: real
  assume "\<not> 2 \<le> x" and x: "0 < x \<and> x < 1"
  then have "log 2 (x * 2) = log 2 x + 1" by (simp add: log_mult)
  moreover have "log 2 x < 0" using x by simp
  then have "\<lfloor>log 2 x\<rfloor> \<le> - 1" by linarith
  ultimately show "(x * 2, x) \<in> measure (\<lambda>x. nat \<bar>\<lfloor>log 2 x\<rfloor>\<bar>)"
    by simp
qed

declare ilog2.simps [simp del]

text \<open>Rounding a real to the nearest integer, ties to the even one.\<close>

definition rhe :: "real \<Rightarrow> int" where
  "rhe t =
     (let f = \<lfloor>t\<rfloor>; d = t - of_int f
      in if d < 1 / 2 then f
         else if 1 / 2 < d then f + 1
         else if even f then f else f + 1)"

text \<open>
  Float64 values have a significand of 53 bits and a least exponent: the spacing of the
  values around a magnitude \<open>m\<close> is \<open>2 ^ (ilog2 m - 52)\<close>, and never less than
  \<open>2 ^ emin\<close>, the smallest positive value. \<open>round_mag\<close> rounds a magnitude to that grid.
  A result that reaches \<open>2 ^ 1024\<close> overflows to an infinity.
\<close>

definition emin :: int where
  "emin = - 1074"

definition quantum :: "real \<Rightarrow> real" where
  "quantum m = 2 powi (max (ilog2 m - 52) emin)"

definition round_mag :: "real \<Rightarrow> real" where
  "round_mag m = of_int (rhe (m / quantum m)) * quantum m"

definition overflow_threshold :: real where
  "overflow_threshold = 2 ^ 1024"

datatype float64 = Finite bool real | Inf bool | NaN
  \<comment> \<open>\<open>Finite s m\<close> is the number of magnitude \<open>m\<close>, negative when \<open>s\<close> holds;
      \<open>Finite True 0\<close> is the negative zero\<close>

definition round64 :: "bool \<Rightarrow> real \<Rightarrow> float64" where
  "round64 s m =
     (let r = round_mag m in if overflow_threshold \<le> r then Inf s else Finite s r)"

text \<open>
  Multiplication and division of float64 values. No operation raises: a division by zero
  gives an infinity, or not-a-number for \<open>0 / 0\<close>; the sign of a result is the exclusive
  or of the operands' signs.
\<close>

fun fmul :: "float64 \<Rightarrow> float64 \<Rightarrow> float64" where
  "fmul (Finite s a) (Finite t b) = round64 (s \<noteq> t) (a * b)"
| "fmul (Finite s a) (Inf t) = (if a = 0 then NaN else Inf (s \<noteq> t))"
| "fmul (Inf s) (Finite t b) = (if b = 0 then NaN else Inf (s \<noteq> t))"
| "fmul (Inf s) (Inf t) = Inf (s \<noteq> t)"
| "fmul NaN y = NaN"
| "fmul x NaN = NaN"

fun fdiv :: "float64 \<Rightarrow> float64 \<Rightarrow> float64" where
  "fdiv (Finite s a) (Finite t b) =
     (if b = 0 then (if a = 0 then NaN else Inf (s \<noteq> t))
      else round64 (s \<noteq> t) (a / b))"
| "fdiv (Finite s a) (Inf t) = Finite (s \<noteq> t) 0"
| "fdiv (Inf s) (Finite t b) = Inf (s \<noteq> t)"
| "fdiv (Inf s) (Inf t) = NaN"
| "fdiv NaN y = NaN"
| "fdiv x NaN = NaN"

declare fmul.simps(1) [simp del] fdiv.simps(1) [simp del]




text \<open>
  The literal \<^verbatim>\<open>18.01559\<close> of the source: the float64 value nearest to the decimal. Its
  magnitude is \<open>lit_mag\<close> (lemma \<open>lit_eq\<close>).
\<close>

definition lit_18_01559 :: float64 where
  "lit_18_01559 = round64 False 18.01559"

definition lit_mag :: real where
  "lit_mag = 5070937775678727 / 2 ^ 48"

section \<open>Data model of \<^verbatim>\<open>metabolic_app.py\<close>\<close>

text \<open>
  The application keeps its measurements in a pandas table. A table is modelled as the
  list of its rows, in index order, so that all columns have one length by construction;
  a column (a pandas Series) is the list of one field over the rows. The glucose and
  ketone columns hold float64 values (an integer column is converted to float64 by the
  first division or multiplication, without change of value).

  Column names carry accents in the source (\<^verbatim>\<open>Glycemie\<close>, \<^verbatim>\<open>Cetonemie\<close> and
  their \<^verbatim>\<open>_affichee\<close> variants are written here without them).
\<close>

datatype timestamp = Timestamp nat nat nat nat nat
  \<comment> \<open>year, month, day, hour, minute: the value of \<^verbatim>\<open>pd.to_datetime\<close> on
      \<^verbatim>\<open>Date + " " + Heure\<close>, format \<^verbatim>\<open>%d/%m/%Y %H:%M\<close>\<close>

record reading =
  Date :: string
  Heure :: string
  Glycemie :: float64
  Cetonemie :: float64
  Datetime :: timestamp

record df_plot_row = reading +
  Glycemie_affichee :: float64
  Cetonemie_affichee :: float64
  GKI :: float64

type_synonym series = "float64 list"

section \<open>Column arithmetic\<close>

text \<open>\<^verbatim>\<open>series / c\<close> and \<^verbatim>\<open>series * c\<close> for a scalar \<open>c\<close>: elementwise.\<close>

definition series_div_scalar :: "series \<Rightarrow> float64 \<Rightarrow> series" where
  "series_div_scalar s c = map (\<lambda>x. fdiv x c) s"

definition series_mul_scalar :: "series \<Rightarrow> float64 \<Rightarrow> series" where
  "series_mul_scalar s c = map (\<lambda>x. fmul x c) s"

text \<open>\<^verbatim>\<open>series / series\<close> on two columns of one table (one shared index).\<close>

definition series_truediv :: "series \<Rightarrow> series \<Rightarrow> series" where
  "series_truediv s t = map2 fdiv s t"

section \<open>\<^verbatim>\<open>prepare_df_plot\<close>\<close>

text \<open>
  The three assignments \<^verbatim>\<open>df_plot[...] = ...\<close> on the copy of the input table: every row
  keeps its five fields and gains the three new ones.
\<close>

definition assign_columns ::
  "reading list \<Rightarrow> series \<Rightarrow> series \<Rightarrow> series \<Rightarrow> df_plot_row list" where
  "assign_columns df glycemie_affichee cetonemie_affichee gki =
     map (\<lambda>(r, a, c, g).
            \<lparr>Date = Date r, Heure = Heure r, Glycemie = Glycemie r,
             Cetonemie = Cetonemie r, Datetime = Datetime r,
             Glycemie_affichee = a, Cetonemie_affichee = c, GKI = g\<rparr>)
         (zip df (zip glycemie_affichee (zip cetonemie_affichee gki)))"

text \<open>
  The local \<^verbatim>\<open>gly_mmol\<close> of \<^verbatim>\<open>prepare_df_plot\<close> (the block under \<^verbatim>\<open># Calcul GKI\<close>),
  as a function of the mode, the glucose unit and the glucose column.
\<close>

definition gly_mmol :: "string \<Rightarrow> string \<Rightarrow> series \<Rightarrow> series" where
  "gly_mmol gki_mode unit_glucose glycemie =
     (if gki_mode = ''Full mmol''
      then (if unit_glucose = ''mg/dL''
            then series_div_scalar glycemie lit_18_01559 else glycemie)
      else series_div_scalar
             (if unit_glucose = ''mg/dL''
              then glycemie else series_mul_scalar glycemie lit_18_01559)
             lit_18_01559)"

text \<open>
  \<^verbatim>\<open>prepare_df_plot(df, unit_glucose, unit_ketone, gki_mode, debug=False)\<close>. The source
  has no \<^verbatim>\<open>raise\<close> and no check of its arguments, so the model has no failure branch.
  With \<^verbatim>\<open>debug\<close> set the function also prints three columns of the result; the printing
  does not touch the returned table and is not modelled.
\<close>

definition prepare_df_plot ::
  "reading list \<Rightarrow> string \<Rightarrow> string \<Rightarrow> string \<Rightarrow> df_plot_row list" where
  "prepare_df_plot df unit_glucose unit_ketone gki_mode =
     (let glycemie_affichee =
            (if unit_glucose = ''mmol/L''
             then series_div_scalar (map Glycemie df) lit_18_01559
             else map Glycemie df);
          cetonemie_affichee = map Cetonemie df;
          gki = series_truediv (gly_mmol gki_mode unit_glucose (map Glycemie df))
                  (map Cetonemie df)
      in assign_columns df glycemie_affichee cetonemie_affichee gki)"

section \<open>The self-tests' data\<close>

text \<open>The table of \<^verbatim>\<open>test_gki_calculation\<close>.\<close>

definition test_data :: "reading list" where
  "test_data =
     [\<lparr>Date = ''01/01/2024'', Heure = ''08:00'', Glycemie = Finite False 90,
       Cetonemie = Finite False 1.5, Datetime = Timestamp 2024 1 1 8 0\<rparr>,
      \<lparr>Date = ''02/01/2024'', Heure = ''08:00'', Glycemie = Finite False 108,
       Cetonemie = Finite False 2.0, Datetime = Timestamp 2024 1 2 8 0\<rparr>]"

text \<open>The table of \<^verbatim>\<open>test_prepare_df_plot\<close>.\<close>

definition test_df :: "reading list" where
  "test_df =
     [\<lparr>Date = ''01/01/2024'', Heure = ''12:00'', Glycemie = Finite False 90,
       Cetonemie = Finite False 1.5, Datetime = Timestamp 2024 1 1 12 0\<rparr>]"

text \<open>
  A table of one reading with the given glucose and ketone values, for the examples.
\<close>

definition one_reading :: "float64 \<Rightarrow> float64 \<Rightarrow> reading list" where
  "one_reading g k =
     [\<lparr>Date = ''01/01/2024'', Heure = ''12:00'', Glycemie = g, Cetonemie = k,
       Datetime = Timestamp 2024 1 1 12 0\<rparr>]"

text \<open>
  \<^verbatim>\<open>test_glucose_conversion\<close>, for any starting value in place of 90: the two locals
  \<^verbatim>\<open>mmol_l\<close> and \<^verbatim>\<open>reconverted\<close>, and the assertion on them.
\<close>

definition mmol_l :: "float64 \<Rightarrow> float64" where
  "mmol_l mg_dl = fdiv mg_dl lit_18_01559"

definition reconverted :: "float64 \<Rightarrow> float64" where
  "reconverted mg_dl = fmul (mmol_l mg_dl) lit_18_01559"

definition test_glucose_conversion :: bool where
  "test_glucose_conversion =
     (case reconverted (Finite False 90) of
        Finite s r \<Rightarrow> \<bar>(if s then - r else r) - 90\<bar> < 0.1
      | Inf s \<Rightarrow> False
      | NaN \<Rightarrow> False)"

section \<open>Row-wise reading of the column computation\<close>

definition gki_numerator :: "string \<Rightarrow> string \<Rightarrow> float64 \<Rightarrow> float64" where
  "gki_numerator gki_mode unit_glucose x =
     (if gki_mode = ''Full mmol''
      then (if unit_glucose = ''mg/dL'' then fdiv x lit_18_01559 else x)
      else fdiv (if unit_glucose = ''mg/dL'' then x else fmul x lit_18_01559)
             lit_18_01559)"

section \<open>Properties of the rounding\<close>

lemma ilog2_bounds:
  "0 < x \<Longrightarrow> 2 powi (ilog2 x) \<le> x \<and> x < 2 powi (ilog2 x + 1)"
proof (induction x rule: ilog2.induct)
  case (1 x)
  show ?case
  proof (cases "2 \<le> x")
    case True
    then have eq: "ilog2 x = ilog2 (x / 2) + 1" by (subst ilog2.simps) simp
    have "2 powi (ilog2 (x / 2)) \<le> x / 2 \<and> x / 2 < 2 powi (ilog2 (x / 2) + 1)"
      using 1(1) [OF True] 1(3) by simp
    then show ?thesis
      unfolding eq by (simp add: power_int_add)
  next
    case False
    show ?thesis
    proof (cases "x < 1")
      case True
      with False 1(3) have eq: "ilog2 x = ilog2 (x * 2) - 1" by (subst ilog2.simps) simp
      have "2 powi (ilog2 (x * 2)) \<le> x * 2 \<and> x * 2 < 2 powi (ilog2 (x * 2) + 1)"
        using 1(2) [OF False] True 1(3) by simp
      then show ?thesis
        unfolding eq by (simp add: power_int_add power_int_diff)
    next
      case ge1: False
      with False have eq: "ilog2 x = 0" by (subst ilog2.simps) simp
      show ?thesis unfolding eq using False ge1 by simp
    qed
  qed
qed

lemma ilog2_unique:
  assumes "2 powi k \<le> x" "x < 2 powi (k + 1)"
  shows "ilog2 x = k"
proof -
  have "0 < (2::real) powi k" by simp
  with assms(1) have x: "0 < x" by linarith
  note b = ilog2_bounds [OF x]
  have "\<not> ilog2 x + 1 \<le> k"
  proof
    assume "ilog2 x + 1 \<le> k"
    then have "(2::real) powi (ilog2 x + 1) \<le> 2 powi k"
      by (intro power_int_increasing) simp_all
    with assms(1) b show False by linarith
  qed
  moreover have "\<not> k + 1 \<le> ilog2 x"
  proof
    assume "k + 1 \<le> ilog2 x"
    then have "(2::real) powi (k + 1) \<le> 2 powi (ilog2 x)"
      by (intro power_int_increasing) simp_all
    with assms(2) b show False by linarith
  qed
  ultimately show ?thesis by simp
qed

lemma rhe_error: "\<bar>of_int (rhe t) - t\<bar> \<le> 1 / 2"
  unfolding rhe_def Let_def by (auto; linarith)

lemma rhe_unique:
  assumes "\<bar>of_int n - t\<bar> < 1 / 2"
  shows "rhe t = n"
proof -
  define f where "f = \<lfloor>t\<rfloor>"
  have f: "of_int f \<le> t" "t < of_int f + 1"
    unfolding f_def by linarith+
  from assms have n: "real_of_int n - t < 1 / 2" "t - real_of_int n < 1 / 2"
    by linarith+
  have "real_of_int n < real_of_int f + 2" "real_of_int f - 1 < real_of_int n"
    using n f by linarith+
  then have "n < f + 2" "f - 1 < n"
    by linarith+
  then consider "n = f" | "n = f + 1" by linarith
  then show ?thesis
  proof cases
    case 1
    with n have "t - of_int f < 1 / 2" by simp
    then show ?thesis unfolding rhe_def Let_def f_def [symmetric] using 1 by simp
  next
    case 2
    with n have "1 / 2 < t - of_int f" by simp
    then show ?thesis unfolding rhe_def Let_def f_def [symmetric] using 2 by simp
  qed
qed

lemma rhe_nonneg: "0 \<le> t \<Longrightarrow> 0 \<le> rhe t"
  unfolding rhe_def Let_def by (auto; linarith)

lemma quantum_pos: "0 < quantum m"
  by (simp add: quantum_def)

lemma round_mag_nonneg: "0 \<le> m \<Longrightarrow> 0 \<le> round_mag m"
  using quantum_pos [of m] by (simp add: round_mag_def rhe_nonneg)

lemma round_mag_half_quantum: "\<bar>round_mag m - m\<bar> \<le> quantum m / 2"
proof -
  have q: "0 < quantum m" by (rule quantum_pos)
  have "round_mag m - m = (of_int (rhe (m / quantum m)) - m / quantum m) * quantum m"
    using q by (simp add: round_mag_def field_simps)
  then have "\<bar>round_mag m - m\<bar> = \<bar>of_int (rhe (m / quantum m)) - m / quantum m\<bar> * quantum m"
    using q by (simp add: abs_mult)
  also have "\<dots> \<le> 1 / 2 * quantum m"
    using q rhe_error [of "m / quantum m"] by (intro mult_right_mono) simp_all
  finally show ?thesis by simp
qed

lemma quantum_le: 
  assumes m: "0 < m"
  shows "quantum m \<le> m / 2 ^ 52 + 2 powi emin"
proof (cases "emin \<le> ilog2 m - 52")
  case True
  then have "quantum m = 2 powi (ilog2 m) / 2 ^ 52"
    by (simp add: quantum_def max_def power_int_diff)
  also have "\<dots> \<le> m / 2 ^ 52"
    using ilog2_bounds [OF m] by (simp add: divide_right_mono)
  finally show ?thesis
    using zero_less_power_int [of "2::real" emin] by linarith
next
  case False
  then have "quantum m = 2 powi emin" by (simp add: quantum_def max_def)
  then show ?thesis using m by simp
qed

lemma round_mag_error:
  assumes "0 < m"
  shows "\<bar>round_mag m - m\<bar> \<le> m / 2 ^ 53 + 2 powi (emin - 1)"
proof -
  have "\<bar>round_mag m - m\<bar> \<le> quantum m / 2"
    by (rule round_mag_half_quantum)
  also have "\<dots> \<le> (m / 2 ^ 52 + 2 powi emin) / 2"
    using quantum_le [OF assms] by simp
  also have "\<dots> = m / 2 ^ 53 + 2 powi (emin - 1)"
    by (simp add: power_int_diff add_divide_distrib)
  finally show ?thesis .
qed

lemma round_mag_eq:
  assumes "2 powi k \<le> m" "m < 2 powi (k + 1)"
    and "\<bar>of_int n - m / 2 powi (max (k - 52) emin)\<bar> < 1 / 2"
  shows "round_mag m = of_int n * 2 powi (max (k - 52) emin)"
  using assms by (simp add: round_mag_def quantum_def ilog2_unique rhe_unique)

lemma round_mag_0: "round_mag 0 = 0"
  by (simp add: round_mag_def rhe_def)

lemma round_mag_error0:
  assumes "0 \<le> m"
  shows "\<bar>round_mag m - m\<bar> \<le> m / 2 ^ 53 + 2 powi (emin - 1)"
proof (cases "m = 0")
  case True
  then show ?thesis by (simp add: round_mag_0)
next
  case False
  with assms show ?thesis by (intro round_mag_error) simp
qed

lemma eta_bounds: "0 < (2::real) powi (emin - 1)" "(2::real) powi (emin - 1) \<le> 1"
  "(2::real) powi emin = 2 * 2 powi (emin - 1)"
proof -
  show "0 < (2::real) powi (emin - 1)" by simp
  have "(2::real) powi (emin - 1) \<le> 2 powi 0"
    by (intro power_int_increasing) (simp_all add: emin_def)
  then show "(2::real) powi (emin - 1) \<le> 1" by simp
  show "(2::real) powi emin = 2 * 2 powi (emin - 1)"
    by (simp add: power_int_diff)
qed

lemma overflow_threshold_ge: "1024 \<le> overflow_threshold"
proof -
  have "(2::real) ^ 10 \<le> 2 ^ 1024" by (intro power_increasing) simp_all
  then show ?thesis by (simp add: overflow_threshold_def)
qed

lemma lit_eq: "lit_18_01559 = Finite False lit_mag"
proof -
  have r: "round_mag 18.01559 = lit_mag"
    using round_mag_eq [of 4 "18.01559" 5070937775678727]
    by (simp add: power_int_minus emin_def lit_mag_def)
  have "lit_mag < overflow_threshold"
    by (simp add: overflow_threshold_def lit_mag_def)
  with r show ?thesis by (simp add: lit_18_01559_def round64_def)
qed


lemma round64_cases:
  "round64 s m = (if overflow_threshold \<le> round_mag m then Inf s else Finite s (round_mag m))"
  by (simp add: round64_def Let_def)

lemma lit_mag_pos: "0 < lit_mag"
  by (simp add: lit_mag_def)

text \<open>Division and multiplication by the literal.\<close>

lemma fdiv_lit:
  "fdiv (Finite s a) lit_18_01559 = round64 s (a / lit_mag)"
  using lit_mag_pos by (simp add: lit_eq fdiv.simps(1))

lemma fmul_lit:
  "fmul (Finite s a) lit_18_01559 = round64 s (a * lit_mag)"
  by (simp add: lit_eq fmul.simps(1))

lemma fdiv_lit_finite:
  assumes "0 \<le> a" "a < overflow_threshold"
  shows "fdiv (Finite s a) lit_18_01559 = Finite s (round_mag (a / lit_mag))"
    and "\<bar>round_mag (a / lit_mag) - a / lit_mag\<bar> \<le> a / lit_mag / 2 ^ 53 + 2 powi (emin - 1)"
proof -
  have nn: "0 \<le> a / lit_mag" using assms(1) lit_mag_pos by simp
  show err: "\<bar>round_mag (a / lit_mag) - a / lit_mag\<bar> \<le> a / lit_mag / 2 ^ 53 + 2 powi (emin - 1)"
    by (rule round_mag_error0 [OF nn])
  have "round_mag (a / lit_mag) < overflow_threshold"
    using err assms eta_bounds(2) overflow_threshold_ge
    by (simp add: lit_mag_def)
  then show "fdiv (Finite s a) lit_18_01559 = Finite s (round_mag (a / lit_mag))"
    by (simp add: fdiv_lit round64_cases)
qed




lemma tiny_cases:
  "round_mag (2 powi emin / lit_mag) = 0"
  "round_mag (2 powi emin * lit_mag) = 18 * 2 powi emin"
  "round_mag (18 * 2 powi emin / lit_mag) = 2 powi emin"
proof -
  show "round_mag (2 powi emin / lit_mag) = 0"
    using round_mag_eq [of "- 1079" "2 powi emin / lit_mag" 0]
    by (simp add: power_int_minus emin_def lit_mag_def)
  show "round_mag (2 powi emin * lit_mag) = 18 * 2 powi emin"
    using round_mag_eq [of "- 1070" "2 powi emin * lit_mag" 18]
    by (simp add: power_int_minus emin_def lit_mag_def)
  show "round_mag (18 * 2 powi emin / lit_mag) = 2 powi emin"
    using round_mag_eq [of "- 1075" "18 * 2 powi emin / lit_mag" 1]
    by (simp add: power_int_minus emin_def lit_mag_def)
qed

lemma emin_below_threshold:
  "\<not> overflow_threshold \<le> 0"
  "\<not> overflow_threshold \<le> 2 powi emin"
  "\<not> overflow_threshold \<le> 18 * 2 powi emin"
  using eta_bounds overflow_threshold_ge by simp_all

lemma branches_differ_tiny:
  "fdiv (Finite s (2 powi emin)) lit_18_01559 = Finite s 0"
  "fdiv (fmul (Finite s (2 powi emin)) lit_18_01559) lit_18_01559 = Finite s (2 powi emin)"
  by (simp_all add: fdiv_lit fmul_lit round64_cases tiny_cases emin_below_threshold)



lemma round64_eval:
  assumes "2 powi k \<le> m" "m < 2 powi (k + 1)"
    and "\<bar>of_int n - m / 2 powi (max (k - 52) emin)\<bar> < 1 / 2"
    and "of_int n * 2 powi (max (k - 52) emin) < overflow_threshold"
  shows "round64 s m = Finite s (of_int n * 2 powi (max (k - 52) emin))"
  using assms(4) round_mag_eq [OF assms(1-3)] by (simp add: round64_cases)

text \<open>
  The operations of the self-tests and of the examples, evaluated. The operands are
  given by equations, so that the lemmas apply to any way of writing the numbers.
\<close>

lemma div_90:
  "a = 90 \<Longrightarrow> fdiv (Finite s a) lit_18_01559 = Finite s (5624627981422544 / 2 ^ 50)"
  using round64_eval [of 2 "90 / lit_mag" 5624627981422544 s]
  by (simp add: fdiv_lit power_int_minus emin_def lit_mag_def overflow_threshold_def)

lemma div_108:
  "a = 108 \<Longrightarrow> fdiv (Finite s a) lit_18_01559 = Finite s (6749553577707052 / 2 ^ 50)"
  using round64_eval [of 2 "108 / lit_mag" 6749553577707052 s]
  by (simp add: fdiv_lit power_int_minus emin_def lit_mag_def overflow_threshold_def)


lemma mul_115:
  "a = 115 \<Longrightarrow> fmul (Finite s a) lit_18_01559 = Finite s (4555920657836356 / 2 ^ 41)"
  using round64_eval [of 11 "115 * lit_mag" 4555920657836356 s]
  by (simp add: fmul_lit power_int_minus emin_def lit_mag_def overflow_threshold_def)

lemma detour_115:
  "a = 115 \<Longrightarrow>
   fdiv (fmul (Finite s a) lit_18_01559) lit_18_01559 =
   Finite s (8092405580431359 / 2 ^ 46)"
  using round64_eval [of 6 "4555920657836356 / 2 ^ 41 / lit_mag" 8092405580431359 s]
  by (simp add: mul_115 fdiv_lit power_int_minus emin_def lit_mag_def
        overflow_threshold_def)

lemma gki_90:
  assumes "a = 5624627981422544 / 2 ^ 50" "b = 1.5"
  shows "fdiv (Finite s a) (Finite t b) = Finite (s \<noteq> t) (7499503975230059 / 2 ^ 51)"
  unfolding assms
  using round64_eval
    [of 1 "5624627981422544 / 2 ^ 50 / 1.5" 7499503975230059 "s \<noteq> t"]
  by (simp add: fdiv.simps(1) power_int_minus emin_def overflow_threshold_def)

lemma gki_108:
  assumes "a = 6749553577707052 / 2 ^ 50" "b = 2"
  shows "fdiv (Finite s a) (Finite t b) = Finite (s \<noteq> t) (6749553577707052 / 2 ^ 51)"
  unfolding assms
  using round64_eval
    [of 1 "6749553577707052 / 2 ^ 50 / 2" 6749553577707052 "s \<noteq> t"]
  by (simp add: fdiv.simps(1) power_int_minus emin_def overflow_threshold_def)

lemma gki_115_detour:
  assumes "a = 8092405580431359 / 2 ^ 46" "b = 1.5"
  shows "fdiv (Finite s a) (Finite t b) = Finite (s \<noteq> t) (5394937053620906 / 2 ^ 46)"
  unfolding assms
  using round64_eval
    [of 6 "8092405580431359 / 2 ^ 46 / 1.5" 5394937053620906 "s \<noteq> t"]
  by (simp add: fdiv.simps(1) power_int_minus emin_def overflow_threshold_def)

lemma gki_115_direct:
  assumes "a = 115" "b = 1.5"
  shows "fdiv (Finite s a) (Finite t b) = Finite (s \<noteq> t) (5394937053620907 / 2 ^ 46)"
  unfolding assms
  using round64_eval [of 6 "115 / 1.5" 5394937053620907 "s \<noteq> t"]
  by (simp add: fdiv.simps(1) power_int_minus emin_def overflow_threshold_def)

lemma reconverted_90: "reconverted (Finite s 90) = Finite s 90"
  using round64_eval [of 6 "5624627981422544 / 2 ^ 50 * lit_mag" 6333186975989760 s]
  by (simp add: reconverted_def mmol_l_def div_90 fmul_lit power_int_minus emin_def
        lit_mag_def overflow_threshold_def)

lemma round64_0: "round64 s 0 = Finite s 0"
  using emin_below_threshold(1) by (simp add: round64_cases round_mag_0)

lemma reconverted_smallest:
  "reconverted (Finite s (2 powi emin)) = Finite s 0"
  by (simp add: reconverted_def mmol_l_def branches_differ_tiny fmul_lit round64_0)

section \<open>The conversion pair and the quotient, up to rounding\<close>



section \<open>The column program, row by row\<close>

lemma gly_mmol_map:
  "gly_mmol gki_mode unit_glucose s = map (gki_numerator gki_mode unit_glucose) s"
  by (simp add: gly_mmol_def gki_numerator_def [abs_def] series_div_scalar_def
        series_mul_scalar_def comp_def)

lemma assign_columns_map:
  "assign_columns df (map f df) (map g df) (map2 h (map p df) (map q df)) =
     map (\<lambda>r. \<lparr>Date = Date r, Heure = Heure r, Glycemie = Glycemie r,
                Cetonemie = Cetonemie r, Datetime = Datetime r,
                Glycemie_affichee = f r, Cetonemie_affichee = g r,
                GKI = h (p r) (q r)\<rparr>) df"
  by (induction df) (simp_all add: assign_columns_def)

lemma prepare_df_plot_rows:
  "prepare_df_plot df unit_glucose unit_ketone gki_mode =
     map (\<lambda>r. \<lparr>Date = Date r, Heure = Heure r, Glycemie = Glycemie r,
                Cetonemie = Cetonemie r, Datetime = Datetime r,
                Glycemie_affichee =
                  (if unit_glucose = ''mmol/L'' then fdiv (Glycemie r) lit_18_01559
                   else Glycemie r),
                Cetonemie_affichee = Cetonemie r,
                GKI = fdiv (gki_numerator gki_mode unit_glucose (Glycemie r))
                        (Cetonemie r)\<rparr>) df"
proof -
  have disp:
    "(if unit_glucose = ''mmol/L''
      then series_div_scalar (map Glycemie df) lit_18_01559 else map Glycemie df) =
     map (\<lambda>r. if unit_glucose = ''mmol/L'' then fdiv (Glycemie r) lit_18_01559
               else Glycemie r) df"
    by (simp add: series_div_scalar_def)
  have num:
    "gly_mmol gki_mode unit_glucose (map Glycemie df) =
     map (\<lambda>r. gki_numerator gki_mode unit_glucose (Glycemie r)) df"
    by (simp add: gly_mmol_map comp_def)
  show ?thesis
    unfolding prepare_df_plot_def Let_def disp num series_truediv_def
    by (rule assign_columns_map)
qed

lemma GKI_column:
  "map GKI (prepare_df_plot df unit_glucose unit_ketone gki_mode) =
     map (\<lambda>r. fdiv (gki_numerator gki_mode unit_glucose (Glycemie r))
                 (Cetonemie r)) df"
  by (simp add: prepare_df_plot_rows comp_def)


lemma reading_rebuild:
  "\<lparr>Date = Date r, Heure = Heure r, Glycemie = Glycemie r,
    Cetonemie = Cetonemie r, Datetime = Datetime r\<rparr> = (r :: reading)"
  by (cases r) simp

text \<open>The assertion of \<^verbatim>\<open>test_glucose_conversion\<close> holds.\<close>

lemma test_glucose_conversion_passes: "test_glucose_conversion"
  by (simp add: test_glucose_conversion_def reconverted_90)

section \<open>The GKI numerator in the two modes\<close>

text \<open>
  Claim C2. In the mode \<^verbatim>\<open>"Full mmol"\<close> the glucose component of the GKI is the stored
  glucose divided by 18.01559 when the glucose unit is \<^verbatim>\<open>"mg/dL"\<close>, and the stored
  glucose unchanged when the unit is \<^verbatim>\<open>"mmol/L"\<close>; the GKI column is that component
  divided by the ketone column.
\<close>

theorem full_mmol_numerator:
  "gly_mmol ''Full mmol'' ''mg/dL'' s = map (\<lambda>x. fdiv x lit_18_01559) s \<and>
   gly_mmol ''Full mmol'' ''mmol/L'' s = s \<and>
   map GKI (prepare_df_plot df ''mg/dL'' unit_ketone ''Full mmol'') =
     map (\<lambda>r. fdiv (fdiv (Glycemie r) lit_18_01559) (Cetonemie r)) df \<and>
   map GKI (prepare_df_plot df ''mmol/L'' unit_ketone ''Full mmol'') =
     map (\<lambda>r. fdiv (Glycemie r) (Cetonemie r)) df"
  by (simp add: GKI_column gly_mmol_def series_div_scalar_def gki_numerator_def)




text \<open>
  Claim C9. The mode is compared with the one string \<^verbatim>\<open>"Full mmol"\<close>. Every other
  string, the interface's own label \<^verbatim>\<open>"Standard (mg/dL/mmol)"\<close> and any unknown one
  alike, takes the Standard computation: the result is the table that the interface's
  label gives, with one row per input row, and its GKI column is computed by the
  Standard steps (for a unit other than \<^verbatim>\<open>"mg/dL"\<close>: multiply by 18.01559, divide by
  it, divide by the ketone value). No mode string leads to a failure: the function has
  no check of its configuration, and returns a table for every mode.
\<close>

theorem unrecognised_mode_is_standard:
  assumes "gki_mode \<noteq> ''Full mmol''"
  shows "prepare_df_plot df unit_glucose unit_ketone gki_mode =
           prepare_df_plot df unit_glucose unit_ketone ''Standard (mg/dL/mmol)'' \<and>
         length (prepare_df_plot df unit_glucose unit_ketone gki_mode) = length df \<and>
         map GKI (prepare_df_plot df unit_glucose unit_ketone gki_mode) =
           map (\<lambda>r. fdiv
                      (fdiv (if unit_glucose = ''mg/dL'' then Glycemie r
                             else fmul (Glycemie r) lit_18_01559) lit_18_01559)
                      (Cetonemie r)) df"
  using assms
  by (simp add: prepare_df_plot_rows gki_numerator_def comp_def)

text \<open>
  The theorem at a mode string that the interface does not offer, for a stored glucose
  of 115 with the unit \<^verbatim>\<open>"mmol/L"\<close>: the GKI is 76.66666666666666, where the mode
  \<^verbatim>\<open>"Full mmol"\<close> gives 76.66666666666667.
\<close>

theorem unrecognised_mode_is_standard_witness:
  "''Keto ratio'' \<noteq> ''Full mmol'' \<and>
   prepare_df_plot (one_reading (Finite False 115) (Finite False 1.5))
     ''mmol/L'' ''mmol/L'' ''Keto ratio'' =
   prepare_df_plot (one_reading (Finite False 115) (Finite False 1.5))
     ''mmol/L'' ''mmol/L'' ''Standard (mg/dL/mmol)'' \<and>
   length (prepare_df_plot (one_reading (Finite False 115) (Finite False 1.5))
     ''mmol/L'' ''mmol/L'' ''Keto ratio'') = 1 \<and>
   map GKI (prepare_df_plot (one_reading (Finite False 115) (Finite False 1.5))
     ''mmol/L'' ''mmol/L'' ''Keto ratio'') =
     [Finite False (5394937053620906 / 2 ^ 46)] \<and>
   map GKI (prepare_df_plot (one_reading (Finite False 115) (Finite False 1.5))
     ''mmol/L'' ''mmol/L'' ''Full mmol'') =
     [Finite False (5394937053620907 / 2 ^ 46)]"
  using unrecognised_mode_is_standard
    [of "''Keto ratio''" "one_reading (Finite False 115) (Finite False 1.5)"
        "''mmol/L''" "''mmol/L''"]
  by (simp add: one_reading_def prepare_df_plot_rows gki_numerator_def detour_115
        gki_115_detour gki_115_direct)

text \<open>
  The mode \<^verbatim>\<open>"Full mmol"\<close> is another computation: on the same reading its table is
  not the Standard one.
\<close>

lemma full_mmol_is_another_path:
  "prepare_df_plot (one_reading (Finite False 115) (Finite False 1.5))
     ''mmol/L'' unit_ketone ''Full mmol'' \<noteq>
   prepare_df_plot (one_reading (Finite False 115) (Finite False 1.5))
     ''mmol/L'' unit_ketone ''Standard (mg/dL/mmol)''"
  by (simp add: one_reading_def prepare_df_plot_rows gki_numerator_def detour_115
        gki_115_detour gki_115_direct)

section \<open>The self-tests' values\<close>

text \<open>
  Claim C3, as amended. For the one reading with glucose 90 and ketone 1.5, glucose
  unit \<^verbatim>\<open>"mg/dL"\<close> and Standard mode, the GKI is \<open>(90 / 18.01559) / 1.5\<close> computed in
  float64: the value 3.3304487946273205, which is within \<open>1 / 10 ^ 15\<close> of the real
  quotient and is 3.3304 to four decimals.
\<close>

theorem test_df_gki:
  "map GKI (prepare_df_plot test_df ''mg/dL'' ''mmol/L'' ''Standard (mg/dL/mmol)'') =
     [fdiv (fdiv (Finite False 90) lit_18_01559) (Finite False 1.5)] \<and>
   fdiv (fdiv (Finite False 90) lit_18_01559) (Finite False 1.5) =
     Finite False (7499503975230059 / 2 ^ 51) \<and>
   \<bar>7499503975230059 / 2 ^ 51 - (90 / 18.01559) / 1.5\<bar> < (1 / 10 ^ 15 :: real) \<and>
   \<bar>7499503975230059 / 2 ^ 51 - 3.3304\<bar> < (0.0001 :: real)"
  by (simp add: GKI_column test_df_def gki_numerator_def div_90 gki_90)

text \<open>
  The same GKI is farther than 0.3 from 2.9974, the value of the second reading of
  \<^verbatim>\<open>test_gki_calculation\<close>.
\<close>

theorem test_df_gki_not_2_9974:
  "map GKI (prepare_df_plot test_df ''mg/dL'' ''mmol/L'' ''Standard (mg/dL/mmol)'') =
     [Finite False (7499503975230059 / 2 ^ 51)] \<and>
   \<not> \<bar>7499503975230059 / 2 ^ 51 - 2.9974\<bar> \<le> (0.3 :: real)"
  by (simp add: GKI_column test_df_def gki_numerator_def div_90 gki_90)

text \<open>
  Claim C4. For the two readings of \<^verbatim>\<open>test_gki_calculation\<close>, glucose unit
  \<^verbatim>\<open>"mg/dL"\<close> and Standard mode, the GKI column is
  \<open>[(90 / 18.01559) / 1.5, (108 / 18.01559) / 2.0]\<close> computed in float64, in the order
  of the input: the values 3.3304487946273205 and 2.997403915164588, each within
  \<open>1 / 10 ^ 15\<close> of the real quotient, and within \<open>1 / 10 ^ 3\<close> of 3.330 and 2.998.
\<close>

theorem test_data_gki:
  "map GKI (prepare_df_plot test_data ''mg/dL'' ''mmol/L'' ''Standard (mg/dL/mmol)'') =
     [fdiv (fdiv (Finite False 90) lit_18_01559) (Finite False 1.5),
      fdiv (fdiv (Finite False 108) lit_18_01559) (Finite False 2.0)] \<and>
   map GKI (prepare_df_plot test_data ''mg/dL'' ''mmol/L'' ''Standard (mg/dL/mmol)'') =
     [Finite False (7499503975230059 / 2 ^ 51),
      Finite False (6749553577707052 / 2 ^ 51)] \<and>
   \<bar>7499503975230059 / 2 ^ 51 - (90 / 18.01559) / 1.5\<bar> < (1 / 10 ^ 15 :: real) \<and>
   \<bar>6749553577707052 / 2 ^ 51 - (108 / 18.01559) / 2.0\<bar> < (1 / 10 ^ 15 :: real) \<and>
   \<bar>7499503975230059 / 2 ^ 51 - 3.330\<bar> < (0.001 :: real) \<and>
   \<bar>6749553577707052 / 2 ^ 51 - 2.998\<bar> < (0.001 :: real) \<and>
   map Datetime
     (prepare_df_plot test_data ''mg/dL'' ''mmol/L'' ''Standard (mg/dL/mmol)'') =
     [Timestamp 2024 1 1 8 0, Timestamp 2024 1 2 8 0]"
  by (simp add: GKI_column prepare_df_plot_rows test_data_def gki_numerator_def
        div_90 div_108 gki_90 gki_108)

section \<open>The conversion round trip\<close>

text \<open>
  Claim C5, as amended. Converting a glucose value to mmol/L and back,
  \<open>(x / 18.01559) * 18.01559\<close> in float64, gives \<open>x\<close> back within a relative error of
  \<open>1 / 10 ^ 6\<close>, for every \<open>x\<close> of either sign whose magnitude lies between
  \<open>1 / 2 ^ 1000\<close> and \<open>2 ^ 1000\<close>; the range from 20 to 600 mg/dL lies within.
\<close>

theorem round_trip_relative_error:
  assumes lo: "1 / 2 ^ 1000 \<le> m" and hi: "m \<le> 2 ^ 1000"
  shows "\<exists>r. reconverted (Finite s m) = Finite s r \<and> \<bar>r - m\<bar> \<le> m / 10 ^ 6"
proof -
  define a where "a = round_mag (m / lit_mag)"
  define b where "b = round_mag (a * lit_mag)"
  define E :: real where "E = 2 powi (emin - 1)"
  have E: "E = 1 / 2 ^ 1075"
    by (simp add: E_def emin_def power_int_minus field_simps)
  have T: "overflow_threshold = 2 ^ 1024" by (simp add: overflow_threshold_def)
  have m0: "0 \<le> m" using lo by (smt (verit) divide_nonneg_nonneg zero_le_power)
  have mT: "m < overflow_threshold" using hi unfolding T by simp
  have one: "fdiv (Finite s m) lit_18_01559 = Finite s a"
    and aerr: "\<bar>a - m / lit_mag\<bar> \<le> m / lit_mag / 2 ^ 53 + E"
    unfolding a_def E_def using fdiv_lit_finite [OF m0 mT] by simp_all
  have a0: "0 \<le> a" unfolding a_def using m0 lit_mag_pos by (intro round_mag_nonneg) simp
  have berr: "\<bar>b - a * lit_mag\<bar> \<le> a * lit_mag / 2 ^ 53 + E"
    unfolding b_def E_def using a0 lit_mag_pos by (intro round_mag_error0) simp
  have bT: "b < overflow_threshold"
    using aerr berr hi m0 unfolding T E by (simp add: lit_mag_def)
  have two: "fmul (Finite s a) lit_18_01559 = Finite s b"
    using bT by (simp add: fmul_lit round64_cases b_def)
  have "E = 1 / 2 ^ 1000 / 2 ^ 75" unfolding E by simp
  also have "\<dots> \<le> m / 2 ^ 75" using lo by (intro divide_right_mono) simp_all
  finally have Em: "E \<le> m / 2 ^ 75" .
  have a_lo: "m / lit_mag - (m / lit_mag / 2 ^ 53 + E) \<le> a"
    and a_hi: "a \<le> m / lit_mag + (m / lit_mag / 2 ^ 53 + E)"
    using aerr by linarith+
  have b_lo: "a * lit_mag - (a * lit_mag / 2 ^ 53 + E) \<le> b"
    and b_hi: "b \<le> a * lit_mag + (a * lit_mag / 2 ^ 53 + E)"
    using berr by linarith+
  have "b - m \<le> m / 10 ^ 6"
    using a_hi b_hi Em m0 a0 by (simp add: lit_mag_def)
  moreover have "m - b \<le> m / 10 ^ 6"
    using a_lo b_lo Em m0 a0 by (simp add: lit_mag_def)
  ultimately have "\<bar>b - m\<bar> \<le> m / 10 ^ 6" by linarith
  then show ?thesis by (simp add: reconverted_def mmol_l_def one two)
qed

text \<open>The theorem at the two ends of the range from 20 to 600.\<close>

theorem round_trip_relative_error_witness:
  "(1 / 2 ^ 1000 \<le> (20 :: real) \<and> (20 :: real) \<le> 2 ^ 1000 \<and>
    (\<exists>r. reconverted (Finite False 20) = Finite False r \<and> \<bar>r - 20\<bar> \<le> 20 / 10 ^ 6)) \<and>
   (1 / 2 ^ 1000 \<le> (600 :: real) \<and> (600 :: real) \<le> 2 ^ 1000 \<and>
    (\<exists>r. reconverted (Finite False 600) = Finite False r \<and>
         \<bar>r - 600\<bar> \<le> 600 / 10 ^ 6))"
  using round_trip_relative_error [of 20 False]
    round_trip_relative_error [of 600 False]
  by simp

text \<open>
  The smallest positive float64 value, \<open>2 ^ emin\<close> (printed \<^verbatim>\<open>5e-324\<close>), does not survive
  the round trip: its quotient by 18.01559 rounds to zero.
\<close>

theorem round_trip_loses_smallest:
  "reconverted (Finite False (2 powi emin)) = Finite False 0 \<and>
   \<not> \<bar>0 - 2 powi emin\<bar> \<le> (2 powi emin / 10 ^ 6 :: real)"
  by (simp add: reconverted_smallest)

section \<open>Rows in, rows out\<close>

text \<open>
  Claim C8. For every input table and every configuration the result has as many rows
  as the input, with the same timestamps in the same order; indeed every row of the
  result carries the five fields of the input row at its position, unchanged.
\<close>

theorem order_preserved:
  "length (prepare_df_plot df unit_glucose unit_ketone gki_mode) = length df \<and>
   map Datetime (prepare_df_plot df unit_glucose unit_ketone gki_mode) =
     map Datetime df \<and>
   map (\<lambda>r. \<lparr>Date = Date r, Heure = Heure r, Glycemie = Glycemie r,
              Cetonemie = Cetonemie r, Datetime = Datetime r\<rparr>)
     (prepare_df_plot df unit_glucose unit_ketone gki_mode) = df"
  by (simp add: prepare_df_plot_rows comp_def reading_rebuild)

text \<open>
  Claim C10. The ketone unit has no influence on the result: for any two values of
  \<^verbatim>\<open>unit_ketone\<close>, and every table, glucose unit and mode, the two results are equal.
\<close>

theorem unit_ketone_irrelevant:
  "prepare_df_plot df unit_glucose unit_ketone gki_mode =
   prepare_df_plot df unit_glucose unit_ketone' gki_mode"
  by (simp add: prepare_df_plot_def)

section \<open>Displayed values\<close>

text \<open>
  Claim C6. The displayed glucose is the stored glucose divided by 18.01559 when the
  glucose unit is \<^verbatim>\<open>"mmol/L"\<close>, and the stored glucose otherwise; the displayed ketone
  is the stored ketone, whatever the ketone unit.
\<close>

theorem display_columns:
  "map Glycemie_affichee (prepare_df_plot df unit_glucose unit_ketone gki_mode) =
     (if unit_glucose = ''mmol/L'' then map (\<lambda>r. fdiv (Glycemie r) lit_18_01559) df
      else map Glycemie df) \<and>
   map Cetonemie_affichee (prepare_df_plot df unit_glucose unit_ketone gki_mode) =
     map Cetonemie df"
  by (simp add: prepare_df_plot_rows comp_def)

section \<open>Division by the ketone value\<close>




text \<open>
  At a ketone value of zero the GKI is an infinity whose sign is the exclusive or of the
  two signs, and not-a-number when the glucose component is zero too; a division that
  would overflow or leave the float64 range gives an infinity as well.
\<close>

lemma zero_ketone_gki:
  "fdiv (Finite False (5624627981422544 / 2 ^ 50)) (Finite False 0) = Inf False"
  "fdiv (Finite False (5624627981422544 / 2 ^ 50)) (Finite True 0) = Inf True"
  "fdiv (Finite False 0) (Finite False 0) = NaN"
  by (simp_all add: fdiv.simps(1))

end
